theory Spec2Isabelle
  imports Main "HOL-Library.AList"
begin

section \<open>Python values, errors and the operations the commands use\<close>

text \<open>
  The commands of \<^verbatim>\<open>dvc/commands/studio.py\<close> work on a nested configuration
  dictionary. A dictionary is an association list in insertion order: a lookup takes
  the first pair of a key, an assignment replaces the value of a key in place or
  appends a new pair, a deletion removes the key.
\<close>

datatype pyval = PyNone | PyStr string | PyDict "(string \<times> pyval) list"

datatype pyerr = KeyError string | TypeError | ValueError string | OtherError string

text \<open>Truth value testing, as \<^verbatim>\<open>not x\<close> and \<^verbatim>\<open>x or y\<close> use it.\<close>

fun truthy :: "pyval \<Rightarrow> bool" where
  "truthy PyNone = False"
| "truthy (PyStr s) = (s \<noteq> [])"
| "truthy (PyDict d) = (d \<noteq> [])"

text \<open>\<^verbatim>\<open>coll[key]\<close> with a string key.\<close>

fun getitem :: "pyval \<Rightarrow> string \<Rightarrow> pyerr + pyval" where
  "getitem (PyDict d) k = (case map_of d k of None \<Rightarrow> Inl (KeyError k) | Some v \<Rightarrow> Inr v)"
| "getitem (PyStr s) k = Inl TypeError"
| "getitem PyNone k = Inl TypeError"

text \<open>\<^verbatim>\<open>coll[key] = v\<close>.\<close>

fun setitem :: "pyval \<Rightarrow> string \<Rightarrow> pyval \<Rightarrow> pyerr + pyval" where
  "setitem (PyDict d) k v = Inr (PyDict (AList.update k v d))"
| "setitem (PyStr s) k v = Inl TypeError"
| "setitem PyNone k v = Inl TypeError"

text \<open>\<^verbatim>\<open>del coll[key]\<close>.\<close>

fun delitem :: "pyval \<Rightarrow> string \<Rightarrow> pyerr + pyval" where
  "delitem (PyDict d) k =
     (case map_of d k of None \<Rightarrow> Inl (KeyError k) | Some v \<Rightarrow> Inr (PyDict (AList.delete k d)))"
| "delitem (PyStr s) k = Inl TypeError"
| "delitem PyNone k = Inl TypeError"

text \<open>
  \<^verbatim>\<open>funcy.get_in(coll, path)\<close> with the default \<^verbatim>\<open>None\<close>:
  \<^verbatim>\<open>
  for key in path:
      try:
          coll = coll[key]
      except (KeyError, IndexError):
          return default
  return coll
  \<close>
  Only a missing key gives the default; any other exception of the lookup propagates.
\<close>

fun get_in :: "pyval \<Rightarrow> string list \<Rightarrow> pyerr + pyval" where
  "get_in coll [] = Inr coll"
| "get_in coll (key # path) =
     (case getitem coll key of
        Inl (KeyError k) \<Rightarrow> Inr PyNone
      | Inl e \<Rightarrow> Inl e
      | Inr v \<Rightarrow> get_in v path)"

text \<open>
  \<^verbatim>\<open>conf[sec][key] = v\<close> and \<^verbatim>\<open>del conf[sec][key]\<close>: the inner dictionary is
  fetched with \<^verbatim>\<open>conf[sec]\<close> and changed in place, so \<^verbatim>\<open>conf\<close> holds the changed
  dictionary afterwards.
\<close>

definition setitem2 :: "pyval \<Rightarrow> string \<Rightarrow> string \<Rightarrow> pyval \<Rightarrow> pyerr + pyval" where
  "setitem2 conf sec k v =
     (case getitem conf sec of
        Inl e \<Rightarrow> Inl e
      | Inr inner \<Rightarrow>
          (case setitem inner k v of
             Inl e \<Rightarrow> Inl e
           | Inr inner' \<Rightarrow> setitem conf sec inner'))"

definition delitem2 :: "pyval \<Rightarrow> string \<Rightarrow> string \<Rightarrow> pyerr + pyval" where
  "delitem2 conf sec k =
     (case getitem conf sec of
        Inl e \<Rightarrow> Inl e
      | Inr inner \<Rightarrow>
          (case delitem inner k of
             Inl e \<Rightarrow> Inl e
           | Inr inner' \<Rightarrow> setitem conf sec inner'))"

text \<open>\<^verbatim>\<open>a or b\<close> where \<^verbatim>\<open>a\<close> is a string or \<^verbatim>\<open>None\<close>.\<close>

fun py_or :: "string option \<Rightarrow> string \<Rightarrow> string" where
  "py_or None d = d"
| "py_or (Some s) d = (if s = [] then d else s)"

text \<open>\<^verbatim>\<open>s.split(",")\<close>: the pieces between the separators, empty pieces kept.\<close>

fun split_acc :: "char \<Rightarrow> string \<Rightarrow> string \<Rightarrow> string list" where
  "split_acc sep acc [] = [rev acc]"
| "split_acc sep acc (c # cs) =
     (if c = sep then rev acc # split_acc sep [] cs else split_acc sep (c # acc) cs)"

definition split :: "string \<Rightarrow> char \<Rightarrow> string list" where
  "split s sep = split_acc sep [] s"

definition DEFAULT_SCOPES :: string where
  "DEFAULT_SCOPES = ''live,dvc_experiment,view_url,dql,download_model''"

definition AVAILABLE_SCOPES :: "string list" where
  "AVAILABLE_SCOPES = [''live'', ''dvc_experiment'', ''view_url'', ''dql'', ''download_model'']"

section \<open>The configuration store\<close>

text \<open>
  The class behind \<^verbatim>\<open>self.config\<close>, with its \<^verbatim>\<open>read\<close> and its context manager
  \<^verbatim>\<open>edit\<close>, is not among the sources. The spec describes it as a Scoped Config
  Store: named scopes, each a persistent namespace of nested key paths. A store is the
  content of every scope.
\<close>

type_synonym config = "string \<Rightarrow> pyval"

text \<open>A store in which no scope holds anything.\<close>

definition empty_config :: config where
  "empty_config = (\<lambda>level. PyDict [])"

text \<open>
  Modelled from the spec: \<^verbatim>\<open>Config.read(level)\<close>, which is not among the sources.
  It reads the content of the scope without mutation.
\<close>

definition config_read :: "config \<Rightarrow> string \<Rightarrow> pyval" where
  "config_read cfg level = cfg level"

text \<open>
  Modelled from the spec: the context manager \<^verbatim>\<open>Config.edit(level)\<close>, which is not
  among the sources. It opens a scoped transactional edit: the block gets the content of
  the scope, and the store commits the whole edit or none of it. What the block leaves is
  committed when the block is left normally (by falling through or by \<^verbatim>\<open>return\<close>);
  nothing is committed when the block raises, and the exception goes on to the caller.
\<close>

definition config_edit ::
  "config \<Rightarrow> string \<Rightarrow> (pyval \<Rightarrow> pyerr + pyval \<times> 'r) \<Rightarrow> config \<times> (pyerr + 'r)" where
  "config_edit cfg level block =
     (case block (cfg level) of
        Inl e \<Rightarrow> (cfg, Inl e)
      | Inr (conf', r) \<Rightarrow> (cfg(level := conf'), Inr r))"

section \<open>What a command does to the outside\<close>

datatype event =
    UiWrite pyval
  | UiErrorWrite string
  | StartDeviceLogin string string string "string list"
  | WebbrowserOpen string
  | CheckTokenAuthorization string string

record args =
  args_name :: "string option"
  args_hostname :: "string option"
  args_scopes :: "string option"
  args_use_device_code :: bool

text \<open>
  The collaborators of the login command, none of them among the sources: the name
  generator, the process environment, the two constants \<^verbatim>\<open>DVC_STUDIO_URL\<close> (the
  name of a variable) and \<^verbatim>\<open>STUDIO_URL\<close>, the two calls of the authorization
  client and the browser launcher. The response of \<^verbatim>\<open>start_device_login\<close> is a
  dictionary of strings. Each of the three calls either returns or raises;
  \<^verbatim>\<open>webbrowser.open\<close> returns whether a browser was launched.
\<close>

record world =
  gen_random_name :: string
  environ :: "string \<Rightarrow> string option"
  DVC_STUDIO_URL :: string
  STUDIO_URL :: string
  start_device_login ::
    "string \<Rightarrow> string \<Rightarrow> string \<Rightarrow> string list \<Rightarrow> pyerr + (string \<times> string) list"
  webbrowser_open :: "string \<Rightarrow> pyerr + bool"
  check_token_authorization :: "string \<Rightarrow> string \<Rightarrow> pyerr + pyval"

definition response_get :: "(string \<times> string) list \<Rightarrow> string \<Rightarrow> pyerr + string" where
  "response_get response k =
     (case map_of response k of None \<Rightarrow> Inl (KeyError k) | Some v \<Rightarrow> Inr v)"

text \<open>
  A world whose collaborators answer the same whatever they are asked; its browser
  launcher returns.
\<close>

definition fixed_world ::
  "string option \<Rightarrow> pyerr + (string \<times> string) list \<Rightarrow> bool \<Rightarrow> pyerr + pyval \<Rightarrow> world" where
  "fixed_world env_url started opened completed =
     \<lparr>gen_random_name = ''brisk-fern'',
      environ = (\<lambda>var. if var = ''DVC_STUDIO_URL'' then env_url else None),
      DVC_STUDIO_URL = ''DVC_STUDIO_URL'',
      STUDIO_URL = ''https://studio.example'',
      start_device_login = (\<lambda>client_name base_url token_name scopes. started),
      webbrowser_open = (\<lambda>url. Inr opened),
      check_token_authorization = (\<lambda>uri device_code. completed)\<rparr>"


definition sample_response :: "(string \<times> string) list" where
  "sample_response =
     [(''verification_uri'', ''https://studio.example/auth''), (''user_code'', ''ABCD''),
      (''device_code'', ''dev1''), (''token_uri'', ''https://studio.example/token'')]"

section \<open>The commands\<close>

subsection \<open>login\<close>

definition browser_message :: "string \<Rightarrow> pyval" where
  "browser_message verification_uri = PyStr
     (''A web browser has been opened at \<newline>'' @ verification_uri @ ''.\<newline>'' @
      ''Please continue the login in the web browser.\<newline>'' @
      ''If no web browser is available or if the web browser fails to open,\<newline>'' @
      ''use device code flow with `dvc studio login --use-device-code`.'')"

definition open_url_message :: "string \<Rightarrow> pyval" where
  "open_url_message verification_uri = PyStr
     (''Please open the following url in your browser.\<newline>'' @ verification_uri)"

definition user_code_message :: "string \<Rightarrow> pyval" where
  "user_code_message user_code = PyStr
     (''And enter the user code below '' @ user_code @ '' to authorize.'')"

definition login_scopes :: "args \<Rightarrow> string list" where
  "login_scopes a = split (py_or (args_scopes a) DEFAULT_SCOPES) CHR '',''"

text \<open>
  The part of \<^verbatim>\<open>initiate_authorization\<close> after the response has arrived: the four
  fields are read, then the user is told how to go on. The call of
  \<^verbatim>\<open>webbrowser.open\<close> is not inside a \<^verbatim>\<open>try\<close>, so what it raises leaves the
  function.
\<close>

definition present ::
  "world \<Rightarrow> args \<Rightarrow> (string \<times> string) list \<Rightarrow> event list \<times> (pyerr + string \<times> string)" where
  "present w a response =
     (case response_get response ''verification_uri'' of Inl e \<Rightarrow> ([], Inl e)
      | Inr verification_uri \<Rightarrow>
     (case response_get response ''user_code'' of Inl e \<Rightarrow> ([], Inl e)
      | Inr user_code \<Rightarrow>
     (case response_get response ''device_code'' of Inl e \<Rightarrow> ([], Inl e)
      | Inr device_code \<Rightarrow>
     (case response_get response ''token_uri'' of Inl e \<Rightarrow> ([], Inl e)
      | Inr token_uri \<Rightarrow>
         (let url = verification_uri @ ''?code='' @ user_code;
              manual = [UiWrite (open_url_message verification_uri),
                        UiWrite (user_code_message user_code)]
          in if \<not> args_use_device_code a
             then
               (let ev = [UiWrite (browser_message verification_uri), WebbrowserOpen url]
                in case webbrowser_open w url of
                     Inl e \<Rightarrow> (ev, Inl e)
                   | Inr opened \<Rightarrow>
                       (ev @ (if \<not> opened then manual else []),
                        Inr (device_code, token_uri)))
             else (manual, Inr (device_code, token_uri)))))))"

definition initiate_authorization ::
  "world \<Rightarrow> args \<Rightarrow> string \<Rightarrow> string \<Rightarrow> event list \<times> (pyerr + string \<times> string)" where
  "initiate_authorization w a name hostname =
     (let scopes = login_scopes a;
          call = StartDeviceLogin ''dvc'' hostname name scopes
      in case start_device_login w ''dvc'' hostname name scopes of
           Inl e \<Rightarrow> ([call], Inl e)
         | Inr response \<Rightarrow>
             (case present w a response of (ev, r) \<Rightarrow> (call # ev, r)))"

definition save_config_block :: "string \<Rightarrow> pyval \<Rightarrow> pyval \<Rightarrow> pyerr + pyval \<times> unit" where
  "save_config_block hostname token conf =
     (case setitem2 conf ''studio'' ''token'' token of
        Inl e \<Rightarrow> Inl e
      | Inr conf1 \<Rightarrow>
          (case setitem2 conf1 ''studio'' ''url'' (PyStr hostname) of
             Inl e \<Rightarrow> Inl e
           | Inr conf2 \<Rightarrow> Inr (conf2, ())))"

definition save_config :: "config \<Rightarrow> string \<Rightarrow> pyval \<Rightarrow> config \<times> (pyerr + unit)" where
  "save_config cfg hostname token =
     config_edit cfg ''global'' (save_config_block hostname token)"

definition login_name :: "args \<Rightarrow> string \<Rightarrow> string" where
  "login_name a generated = py_or (args_name a) generated"

definition login_hostname :: "args \<Rightarrow> string option \<Rightarrow> string \<Rightarrow> string" where
  "login_hostname a env_url studio_url = py_or (args_hostname a) (py_or env_url studio_url)"

definition expired_message :: pyval where
  "expired_message = PyStr
     ''failed to authenticate: This 'device_code' has expired.(expired_token)''"

definition success_message :: "string \<Rightarrow> pyval" where
  "success_message name = PyStr
     (''Authentication successful. The token will be '' @
      ''available as '' @ name @ '' in Studio profile.'')"

definition CmdStudioLogin_run ::
  "world \<Rightarrow> args \<Rightarrow> config \<Rightarrow> config \<times> event list \<times> (pyerr + int)" where
  "CmdStudioLogin_run w a cfg =
     (let name = login_name a (gen_random_name w);
          hostname = login_hostname a (environ w (DVC_STUDIO_URL w)) (STUDIO_URL w)
      in case initiate_authorization w a name hostname of
           (ev, Inl (ValueError e)) \<Rightarrow> (cfg, ev @ [UiErrorWrite e], Inr 1)
         | (ev, Inl e) \<Rightarrow> (cfg, ev, Inl e)
         | (ev, Inr (device_code, token_uri)) \<Rightarrow>
             (let ev' = ev @ [CheckTokenAuthorization token_uri device_code]
              in case check_token_authorization w token_uri device_code of
                   Inl e \<Rightarrow> (cfg, ev', Inl e)
                 | Inr access_token \<Rightarrow>
                     if \<not> truthy access_token
                     then (cfg, ev' @ [UiWrite expired_message], Inr 1)
                     else
                       (case save_config cfg hostname access_token of
                          (cfg', Inl e) \<Rightarrow> (cfg', ev', Inl e)
                        | (cfg', Inr u) \<Rightarrow>
                            (cfg', ev' @ [UiWrite (success_message name)], Inr 0))))"

subsection \<open>logout\<close>

text \<open>
  The block of the \<^verbatim>\<open>with\<close> statement. Its value is the configuration it leaves,
  what it printed, and \<^verbatim>\<open>Some\<close> exit code when it left by \<^verbatim>\<open>return\<close>.
\<close>

definition logout_block :: "pyval \<Rightarrow> pyerr + pyval \<times> (event list \<times> int option)" where
  "logout_block conf =
     (case get_in conf [''studio'', ''token''] of
        Inl e \<Rightarrow> Inl e
      | Inr token \<Rightarrow>
          if \<not> truthy token then Inr (conf, ([UiErrorWrite ''Not logged in to Studio.''], Some 1))
          else
            (case delitem2 conf ''studio'' ''token'' of
               Inl e \<Rightarrow> Inl e
             | Inr conf' \<Rightarrow> Inr (conf', ([], None))))"

definition CmdStudioLogout_run :: "config \<Rightarrow> config \<times> event list \<times> (pyerr + int)" where
  "CmdStudioLogout_run cfg =
     (case config_edit cfg ''global'' logout_block of
        (cfg', Inl e) \<Rightarrow> (cfg', [], Inl e)
      | (cfg', Inr (ev, Some code)) \<Rightarrow> (cfg', ev, Inr code)
      | (cfg', Inr (ev, None)) \<Rightarrow>
          (cfg', ev @ [UiWrite (PyStr ''Logged out from Studio'')], Inr 0))"

subsection \<open>token\<close>

definition readToken :: "config \<Rightarrow> pyerr + pyval" where
  "readToken cfg = get_in (config_read cfg ''global'') [''studio'', ''token'']"

definition CmdStudioToken_run :: "config \<Rightarrow> config \<times> event list \<times> (pyerr + int)" where
  "CmdStudioToken_run cfg =
     (case readToken cfg of
        Inl e \<Rightarrow> (cfg, [], Inl e)
      | Inr token \<Rightarrow>
          if \<not> truthy token then (cfg, [UiErrorWrite ''Not logged in to Studio.''], Inr 1)
          else (cfg, [UiWrite token], Inr 0))"

section \<open>Facts about the dictionary operations and the blocks\<close>

lemma get_in2_truthyD:
  assumes "get_in conf [sec, k] = Inr v" and "truthy v"
  shows "\<exists>d inner. conf = PyDict d \<and> map_of d sec = Some (PyDict inner) \<and> map_of inner k = Some v"
proof (cases conf)
  case (PyDict d)
  show ?thesis
  proof (cases "map_of d sec")
    case None
    with PyDict assms show ?thesis by simp
  next
    case (Some x)
    show ?thesis
    proof (cases x)
      case (PyDict inner)
      with \<open>conf = PyDict d\<close> Some assms show ?thesis
        by (cases "map_of inner k") auto
    qed (use \<open>conf = PyDict d\<close> Some assms in auto)
  qed
qed (use assms in auto)

lemma delitem2_present:
  "map_of d sec = Some (PyDict inner) \<Longrightarrow> map_of inner k = Some v \<Longrightarrow>
   delitem2 (PyDict d) sec k = Inr (PyDict (AList.update sec (PyDict (AList.delete k inner)) d))"
  by (simp add: delitem2_def)

lemma logout_block_falsy:
  "get_in conf [''studio'', ''token''] = Inr v \<Longrightarrow> \<not> truthy v \<Longrightarrow>
   logout_block conf = Inr (conf, ([UiErrorWrite ''Not logged in to Studio.''], Some 1))"
  by (simp add: logout_block_def)

lemma logout_run_falsy:
  "get_in (cfg ''global'') [''studio'', ''token''] = Inr v \<Longrightarrow> \<not> truthy v \<Longrightarrow>
   CmdStudioLogout_run cfg = (cfg, [UiErrorWrite ''Not logged in to Studio.''], Inr 1)"
  by (simp add: CmdStudioLogout_run_def config_edit_def logout_block_falsy)

lemma token_run_falsy:
  "get_in (cfg ''global'') [''studio'', ''token''] = Inr v \<Longrightarrow> \<not> truthy v \<Longrightarrow>
   CmdStudioToken_run cfg = (cfg, [UiErrorWrite ''Not logged in to Studio.''], Inr 1)"
  by (simp add: CmdStudioToken_run_def readToken_def config_read_def)

lemma logout_block_truthy:
  "map_of d ''studio'' = Some (PyDict inner) \<Longrightarrow> map_of inner ''token'' = Some v \<Longrightarrow> truthy v \<Longrightarrow>
   logout_block (PyDict d) =
     Inr (PyDict (AList.update ''studio'' (PyDict (AList.delete ''token'' inner)) d), ([], None))"
  by (simp add: logout_block_def delitem2_def)

lemma logout_run_truthy:
  "cfg ''global'' = PyDict d \<Longrightarrow>
   map_of d ''studio'' = Some (PyDict inner) \<Longrightarrow> map_of inner ''token'' = Some v \<Longrightarrow> truthy v \<Longrightarrow>
   CmdStudioLogout_run cfg =
     (cfg(''global'' := PyDict (AList.update ''studio'' (PyDict (AList.delete ''token'' inner)) d)),
      [UiWrite (PyStr ''Logged out from Studio'')], Inr 0)"
  by (simp add: CmdStudioLogout_run_def config_edit_def logout_block_truthy)

lemma setitem2_InrD:
  assumes "setitem2 conf sec k v = Inr c"
  shows "\<exists>d inner. conf = PyDict d \<and> map_of d sec = Some (PyDict inner)"
proof (cases conf)
  case (PyDict d)
  show ?thesis
  proof (cases "map_of d sec")
    case None
    with PyDict assms show ?thesis by (simp add: setitem2_def)
  next
    case (Some x)
    with PyDict assms show ?thesis
      by (cases x) (simp_all add: setitem2_def)
  qed
qed (use assms in \<open>simp_all add: setitem2_def\<close>)

lemma save_config_block_present:
  assumes "map_of d ''studio'' = Some (PyDict inner)"
  shows "save_config_block hostname token (PyDict d) =
     Inr (PyDict (AList.update ''studio''
            (PyDict (AList.update ''url'' (PyStr hostname) (AList.update ''token'' token inner))) d), ())"
  using assms by (simp add: save_config_block_def setitem2_def AList.update_conv')

lemma save_config_present:
  assumes "cfg ''global'' = PyDict d" and "map_of d ''studio'' = Some (PyDict inner)"
  shows "save_config cfg hostname token =
     (cfg(''global'' := PyDict (AList.update ''studio''
            (PyDict (AList.update ''url'' (PyStr hostname) (AList.update ''token'' token inner))) d)),
      Inr ())"
  using assms by (simp add: save_config_def config_edit_def save_config_block_present)

lemma save_config_InrD:
  assumes "snd (save_config cfg hostname token) = Inr u"
  shows "\<exists>d inner. cfg ''global'' = PyDict d \<and> map_of d ''studio'' = Some (PyDict inner)"
proof -
  from assms obtain c where "setitem2 (cfg ''global'') ''studio'' ''token'' token = Inr c"
    by (auto simp: save_config_def config_edit_def save_config_block_def split: sum.splits)
  then show ?thesis by (rule setitem2_InrD)
qed

section \<open>The credential store: save, read, clear\<close>

text \<open>
  C1. Saving a credential and then reading \<^verbatim>\<open>studio.token\<close> from the scope
  \<^verbatim>\<open>global\<close> gives back exactly the token that was saved, for every hostname and
  every token: whenever \<^verbatim>\<open>save_config\<close> completes, and it completes whenever the
  scope \<^verbatim>\<open>global\<close> holds a \<^verbatim>\<open>studio\<close> namespace.
\<close>

theorem save_config_readToken_roundtrip:
  "(snd (save_config cfg hostname token) = Inr () \<longrightarrow>
      readToken (fst (save_config cfg hostname token)) = Inr token) \<and>
   (cfg ''global'' = PyDict d \<and> map_of d ''studio'' = Some (PyDict inner) \<longrightarrow>
      snd (save_config cfg hostname token) = Inr () \<and>
      readToken (fst (save_config cfg hostname token)) = Inr token)"
proof -
  have present: "snd (save_config cfg hostname token) = Inr () \<and>
      readToken (fst (save_config cfg hostname token)) = Inr token"
    if "cfg ''global'' = PyDict d'" "map_of d' ''studio'' = Some (PyDict inner')" for d' inner'
    using that by (simp add: save_config_present readToken_def config_read_def AList.update_conv')
  show ?thesis
  proof (intro conjI impI)
    assume "snd (save_config cfg hostname token) = Inr ()"
    from save_config_InrD [OF this] obtain d' inner' where
      "cfg ''global'' = PyDict d'" "map_of d' ''studio'' = Some (PyDict inner')" by blast
    then show "readToken (fst (save_config cfg hostname token)) = Inr token"
      using present by blast
  next
    assume "cfg ''global'' = PyDict d \<and> map_of d ''studio'' = Some (PyDict inner)"
    then show "snd (save_config cfg hostname token) = Inr ()"
      and "readToken (fst (save_config cfg hostname token)) = Inr token"
      using present by blast+
  qed
qed

theorem save_config_readToken_roundtrip_witness:
  "snd (save_config (empty_config(''global'' := PyDict [(''studio'', PyDict [])]))
          ''https://studio.example'' (PyStr ''abc123'')) = Inr () \<and>
   readToken (fst (save_config (empty_config(''global'' := PyDict [(''studio'', PyDict [])]))
          ''https://studio.example'' (PyStr ''abc123''))) = Inr (PyStr ''abc123'')"
  using save_config_readToken_roundtrip [of "empty_config(''global'' := PyDict [(''studio'', PyDict [])])"
               "''https://studio.example''" "PyStr ''abc123''" "[(''studio'', PyDict [])]" "[]"]
  by simp

text \<open>
  C3. Logout on a store whose scope \<^verbatim>\<open>global\<close> has no \<^verbatim>\<open>studio.token\<close>
  (no \<^verbatim>\<open>studio\<close> namespace, or one without the key \<^verbatim>\<open>token\<close>) prints
  "Not logged in to Studio." as an error, returns exit code 1 and leaves the store as it was.
\<close>

theorem logout_not_logged_in_unchanged:
  assumes "cfg ''global'' = PyDict d"
    and "map_of d ''studio'' = None \<or>
         (map_of d ''studio'' = Some (PyDict inner) \<and> map_of inner ''token'' = None)"
  shows "CmdStudioLogout_run cfg = (cfg, [UiErrorWrite ''Not logged in to Studio.''], Inr 1)"
proof -
  from assms have "get_in (cfg ''global'') [''studio'', ''token''] = Inr PyNone"
    by auto
  then show ?thesis
    by (rule logout_run_falsy) simp
qed

theorem logout_not_logged_in_unchanged_witness:
  "CmdStudioLogout_run empty_config = (empty_config, [UiErrorWrite ''Not logged in to Studio.''], Inr 1) \<and>
   CmdStudioLogout_run
     (empty_config(''global'' := PyDict [(''studio'', PyDict [(''url'', PyStr ''https://studio.example'')])])) =
   (empty_config(''global'' := PyDict [(''studio'', PyDict [(''url'', PyStr ''https://studio.example'')])]),
    [UiErrorWrite ''Not logged in to Studio.''], Inr 1)"
  using logout_not_logged_in_unchanged [of empty_config "[]"]
    logout_not_logged_in_unchanged [of "empty_config(''global'' := PyDict [(''studio'', PyDict [(''url'', PyStr ''https://studio.example'')])])"
           "[(''studio'', PyDict [(''url'', PyStr ''https://studio.example'')])]"
           "[(''url'', PyStr ''https://studio.example'')]"]
  by (simp add: empty_config_def)

text \<open>
  C4, as amended. When \<^verbatim>\<open>studio.token\<close> is present with a truthy (non-empty)
  value, logout deletes the key \<^verbatim>\<open>token\<close>, prints "Logged out from Studio" and
  returns exit code 0; \<^verbatim>\<open>studio.url\<close>, every other key of the namespace, every
  other namespace and every other scope stay as they were.
\<close>

theorem logout_deletes_token_keeps_url:
  assumes "cfg ''global'' = PyDict d"
    and "map_of d ''studio'' = Some (PyDict inner)"
    and "map_of inner ''token'' = Some v"
    and "truthy v"
  shows "CmdStudioLogout_run cfg =
           (cfg(''global'' := PyDict (AList.update ''studio'' (PyDict (AList.delete ''token'' inner)) d)),
            [UiWrite (PyStr ''Logged out from Studio'')], Inr 0) \<and>
         get_in (fst (CmdStudioLogout_run cfg) ''global'') [''studio'', ''token''] = Inr PyNone \<and>
         get_in (fst (CmdStudioLogout_run cfg) ''global'') [''studio'', ''url''] =
           get_in (cfg ''global'') [''studio'', ''url''] \<and>
         (k \<noteq> ''token'' \<longrightarrow>
            get_in (fst (CmdStudioLogout_run cfg) ''global'') [''studio'', k] =
            get_in (cfg ''global'') [''studio'', k]) \<and>
         (sec \<noteq> ''studio'' \<longrightarrow>
            getitem (fst (CmdStudioLogout_run cfg) ''global'') sec = getitem (cfg ''global'') sec) \<and>
         (level \<noteq> ''global'' \<longrightarrow> fst (CmdStudioLogout_run cfg) level = cfg level)"
proof -
  have run: "CmdStudioLogout_run cfg =
           (cfg(''global'' := PyDict (AList.update ''studio'' (PyDict (AList.delete ''token'' inner)) d)),
            [UiWrite (PyStr ''Logged out from Studio'')], Inr 0)"
    using logout_run_truthy [of cfg d inner v] assms by simp
  have gone: "get_in (fst (CmdStudioLogout_run cfg) ''global'') [''studio'', ''token''] = Inr PyNone"
    by (simp add: run AList.update_conv' AList.delete_conv')
  have other: "get_in (fst (CmdStudioLogout_run cfg) ''global'') [''studio'', k'] =
         get_in (cfg ''global'') [''studio'', k']" if "k' \<noteq> ''token''" for k'
    using that assms(1,2) by (simp add: run AList.update_conv' AList.delete_conv')
  have url: "get_in (fst (CmdStudioLogout_run cfg) ''global'') [''studio'', ''url''] =
         get_in (cfg ''global'') [''studio'', ''url'']"
    by (rule other) simp
  have sections: "sec \<noteq> ''studio'' \<longrightarrow>
         getitem (fst (CmdStudioLogout_run cfg) ''global'') sec = getitem (cfg ''global'') sec"
    using assms(1) by (simp add: run AList.update_conv')
  have levels: "level \<noteq> ''global'' \<longrightarrow> fst (CmdStudioLogout_run cfg) level = cfg level"
    by (simp add: run)
  from run gone url other sections levels show ?thesis by blast
qed

text \<open>
  C4, as stated, fails where the token is present but empty: logout returns exit code 1
  and the key stays.
\<close>

theorem logout_present_empty_token_counterexample:
  "CmdStudioLogout_run
     (empty_config(''global'' := PyDict [(''studio'',
        PyDict [(''token'', PyStr ''''), (''url'', PyStr ''https://studio.example'')])])) =
   (empty_config(''global'' := PyDict [(''studio'',
        PyDict [(''token'', PyStr ''''), (''url'', PyStr ''https://studio.example'')])]),
    [UiErrorWrite ''Not logged in to Studio.''], Inr 1)"
  by (simp add: CmdStudioLogout_run_def config_edit_def logout_block_def)

theorem logout_deletes_token_keeps_url_witness:
  "CmdStudioLogout_run
     (empty_config(''global'' := PyDict [(''studio'',
        PyDict [(''token'', PyStr ''abc123''), (''url'', PyStr ''https://studio.example'')])])) =
   (empty_config(''global'' := PyDict [(''studio'',
        PyDict [(''url'', PyStr ''https://studio.example'')])]),
    [UiWrite (PyStr ''Logged out from Studio'')], Inr 0) \<and>
   get_in (fst (CmdStudioLogout_run
     (empty_config(''global'' := PyDict [(''studio'',
        PyDict [(''token'', PyStr ''abc123''), (''url'', PyStr ''https://studio.example'')])])))
     ''global'') [''studio'', ''url''] = Inr (PyStr ''https://studio.example'') \<and>
   getitem (fst (CmdStudioLogout_run
     (empty_config(''global'' := PyDict [(''studio'',
        PyDict [(''token'', PyStr ''abc123''), (''url'', PyStr ''https://studio.example'')])])))
     ''global'') ''core'' = Inl (KeyError ''core'') \<and>
   fst (CmdStudioLogout_run
     (empty_config(''global'' := PyDict [(''studio'',
        PyDict [(''token'', PyStr ''abc123''), (''url'', PyStr ''https://studio.example'')])])))
     ''repo'' = PyDict []"
  using logout_deletes_token_keeps_url
    [where cfg = "empty_config(''global'' := PyDict [(''studio'',
        PyDict [(''token'', PyStr ''abc123''), (''url'', PyStr ''https://studio.example'')])])"
      and d = "[(''studio'', PyDict [(''token'', PyStr ''abc123''), (''url'', PyStr ''https://studio.example'')])]"
      and inner = "[(''token'', PyStr ''abc123''), (''url'', PyStr ''https://studio.example'')]"
      and v = "PyStr ''abc123''"
      and k = "''url''" and sec = "''core''" and level = "''repo''"]
  by (simp add: empty_config_def)

text \<open>
  C9. A \<^verbatim>\<open>studio.token\<close> that is present but falsy (the empty string, for one)
  is treated by logout and by token exactly like an absent one: both print
  "Not logged in to Studio." as an error, return exit code 1 and leave the store alone,
  which is also what they do on the store with the key removed.
\<close>

theorem falsy_token_is_not_logged_in:
  assumes "cfg ''global'' = PyDict d"
    and "map_of d ''studio'' = Some (PyDict inner)"
    and "map_of inner ''token'' = Some v"
    and "\<not> truthy v"
  shows "CmdStudioLogout_run cfg = (cfg, [UiErrorWrite ''Not logged in to Studio.''], Inr 1) \<and>
         CmdStudioToken_run cfg = (cfg, [UiErrorWrite ''Not logged in to Studio.''], Inr 1) \<and>
         snd (CmdStudioLogout_run cfg) =
           snd (CmdStudioLogout_run
             (cfg(''global'' := PyDict (AList.update ''studio'' (PyDict (AList.delete ''token'' inner)) d)))) \<and>
         snd (CmdStudioToken_run cfg) =
           snd (CmdStudioToken_run
             (cfg(''global'' := PyDict (AList.update ''studio'' (PyDict (AList.delete ''token'' inner)) d))))"
proof -
  let ?cfg' = "cfg(''global'' := PyDict (AList.update ''studio'' (PyDict (AList.delete ''token'' inner)) d))"
  from assms have here: "get_in (cfg ''global'') [''studio'', ''token''] = Inr v"
    by simp
  have gone: "get_in (?cfg' ''global'') [''studio'', ''token''] = Inr PyNone"
    by (simp add: AList.update_conv' AList.delete_conv')
  have none: "\<not> truthy PyNone" by simp
  show ?thesis
    using logout_run_falsy [of cfg v] token_run_falsy [of cfg v]
      logout_run_falsy [of ?cfg' PyNone] token_run_falsy [of ?cfg' PyNone]
      here gone assms(4)
    by simp
qed

theorem falsy_token_is_not_logged_in_witness:
  "CmdStudioLogout_run
     (empty_config(''global'' := PyDict [(''studio'', PyDict [(''token'', PyStr '''')])])) =
   (empty_config(''global'' := PyDict [(''studio'', PyDict [(''token'', PyStr '''')])]),
    [UiErrorWrite ''Not logged in to Studio.''], Inr 1) \<and>
   CmdStudioToken_run
     (empty_config(''global'' := PyDict [(''studio'', PyDict [(''token'', PyStr '''')])])) =
   (empty_config(''global'' := PyDict [(''studio'', PyDict [(''token'', PyStr '''')])]),
    [UiErrorWrite ''Not logged in to Studio.''], Inr 1)"
  using falsy_token_is_not_logged_in [of "empty_config(''global'' := PyDict [(''studio'', PyDict [(''token'', PyStr '''')])])"
      "[(''studio'', PyDict [(''token'', PyStr '''')])]" "[(''token'', PyStr '''')]" "PyStr ''''"]
  by simp

text \<open>
  C10. On no store does logout end in a missing-key error: whenever the guard lets the
  deletion be reached (\<^verbatim>\<open>get_in\<close> gave a truthy value), the path
  \<^verbatim>\<open>studio.token\<close> exists and \<^verbatim>\<open>del conf["studio"]["token"]\<close> succeeds.
\<close>

theorem logout_delete_never_missing_key:
  "snd (snd (CmdStudioLogout_run cfg)) \<noteq> Inl (KeyError k) \<and>
   (\<forall>v. get_in (cfg ''global'') [''studio'', ''token''] = Inr v \<longrightarrow> truthy v \<longrightarrow>
      (\<exists>conf'. delitem2 (cfg ''global'') ''studio'' ''token'' = Inr conf'))"
proof (intro conjI allI impI)
  fix v assume g: "get_in (cfg ''global'') [''studio'', ''token''] = Inr v" and t: "truthy v"
  from get_in2_truthyD [OF g t] obtain d inner where
    "cfg ''global'' = PyDict d" "map_of d ''studio'' = Some (PyDict inner)" "map_of inner ''token'' = Some v"
    by blast
  then show "\<exists>conf'. delitem2 (cfg ''global'') ''studio'' ''token'' = Inr conf'"
    by (simp add: delitem2_present)
next
  show "snd (snd (CmdStudioLogout_run cfg)) \<noteq> Inl (KeyError k)"
  proof (cases "get_in (cfg ''global'') [''studio'', ''token'']")
    case (Inl e)
    then have "e \<noteq> KeyError k"
      by (cases "cfg ''global''") (auto split: option.splits pyval.splits sum.splits pyerr.splits)
    with Inl show ?thesis
      by (simp add: CmdStudioLogout_run_def config_edit_def logout_block_def)
  next
    case (Inr v)
    show ?thesis
    proof (cases "truthy v")
      case False
      with Inr show ?thesis by (simp add: logout_run_falsy)
    next
      case True
      from get_in2_truthyD [OF Inr True] obtain d inner where
        "cfg ''global'' = PyDict d" "map_of d ''studio'' = Some (PyDict inner)" "map_of inner ''token'' = Some v"
        by blast
      with True show ?thesis by (simp add: logout_run_truthy)
    qed
  qed
qed

theorem logout_delete_never_missing_key_witness:
  "get_in (PyDict [(''studio'', PyDict [(''token'', PyStr ''abc123'')])]) [''studio'', ''token'']
     = Inr (PyStr ''abc123'') \<and> truthy (PyStr ''abc123'') \<and>
   (\<exists>conf'. delitem2 (PyDict [(''studio'', PyDict [(''token'', PyStr ''abc123'')])])
       ''studio'' ''token'' = Inr conf')"
  using logout_delete_never_missing_key [of "empty_config(''global'' := PyDict [(''studio'', PyDict [(''token'', PyStr ''abc123'')])])"]
  by simp

section \<open>Facts about the login command\<close>

lemma initiate_authorization_manual:
  assumes "start_device_login w ''dvc'' hostname name (login_scopes a) = Inr response"
    and "map_of response ''verification_uri'' = Some vu"
    and "map_of response ''user_code'' = Some uc"
    and "map_of response ''device_code'' = Some dc"
    and "map_of response ''token_uri'' = Some tu"
    and "args_use_device_code a"
  shows "initiate_authorization w a name hostname =
     ([StartDeviceLogin ''dvc'' hostname name (login_scopes a),
       UiWrite (open_url_message vu), UiWrite (user_code_message uc)],
      Inr (dc, tu))"
  using assms
  by (simp add: initiate_authorization_def present_def response_get_def Let_def)

lemma initiate_authorization_browser:
  assumes "start_device_login w ''dvc'' hostname name (login_scopes a) = Inr response"
    and "map_of response ''verification_uri'' = Some vu"
    and "map_of response ''user_code'' = Some uc"
    and "map_of response ''device_code'' = Some dc"
    and "map_of response ''token_uri'' = Some tu"
    and "\<not> args_use_device_code a"
    and "webbrowser_open w (vu @ ''?code='' @ uc) = Inr opened"
  shows "initiate_authorization w a name hostname =
     ([StartDeviceLogin ''dvc'' hostname name (login_scopes a),
       UiWrite (browser_message vu), WebbrowserOpen (vu @ ''?code='' @ uc)] @
      (if opened then [] else [UiWrite (open_url_message vu), UiWrite (user_code_message uc)]),
      Inr (dc, tu))"
  using assms
  by (simp add: initiate_authorization_def present_def response_get_def Let_def)

lemma initiate_authorization_browser_raise:
  assumes "start_device_login w ''dvc'' hostname name (login_scopes a) = Inr response"
    and "map_of response ''verification_uri'' = Some vu"
    and "map_of response ''user_code'' = Some uc"
    and "map_of response ''device_code'' = Some dc"
    and "map_of response ''token_uri'' = Some tu"
    and "\<not> args_use_device_code a"
    and "webbrowser_open w (vu @ ''?code='' @ uc) = Inl e"
  shows "initiate_authorization w a name hostname =
     ([StartDeviceLogin ''dvc'' hostname name (login_scopes a),
       UiWrite (browser_message vu), WebbrowserOpen (vu @ ''?code='' @ uc)],
      Inl e)"
  using assms
  by (simp add: initiate_authorization_def present_def response_get_def Let_def)

lemma initiate_authorization_result:
  assumes "start_device_login w ''dvc'' hostname name (login_scopes a) = Inr response"
    and "map_of response ''verification_uri'' = Some vu"
    and "map_of response ''user_code'' = Some uc"
    and "map_of response ''device_code'' = Some dc"
    and "map_of response ''token_uri'' = Some tu"
  shows "(\<exists>e. snd (initiate_authorization w a name hostname) = Inl e) \<or>
         snd (initiate_authorization w a name hostname) = Inr (dc, tu)"
proof (cases "args_use_device_code a")
  case True
  with initiate_authorization_manual [OF assms] show ?thesis by simp
next
  case False
  show ?thesis
  proof (cases "webbrowser_open w (vu @ ''?code='' @ uc)")
    case (Inl e)
    with initiate_authorization_browser_raise [OF assms False] show ?thesis by simp
  next
    case (Inr opened)
    with initiate_authorization_browser [OF assms False] show ?thesis by simp
  qed
qed

lemma initiate_authorization_raise:
  assumes "start_device_login w ''dvc'' hostname name (login_scopes a) = Inl e"
  shows "initiate_authorization w a name hostname =
           ([StartDeviceLogin ''dvc'' hostname name (login_scopes a)], Inl e)"
  using assms by (simp add: initiate_authorization_def Let_def)

lemma initiate_authorization_first:
  "hd (fst (initiate_authorization w a name hostname)) =
     StartDeviceLogin ''dvc'' hostname name (login_scopes a)"
  by (simp add: initiate_authorization_def Let_def split: sum.splits prod.splits)

lemma split_default: "split DEFAULT_SCOPES CHR '','' = AVAILABLE_SCOPES"
  by (simp add: split_def DEFAULT_SCOPES_def AVAILABLE_SCOPES_def)

lemma login_scopes_given: "args_scopes a = Some s \<Longrightarrow> s \<noteq> [] \<Longrightarrow> login_scopes a = split s CHR '',''"
  by (simp add: login_scopes_def)

lemma login_scopes_omitted: "args_scopes a = None \<Longrightarrow> login_scopes a = AVAILABLE_SCOPES"
  by (simp add: login_scopes_def split_default)

lemma login_run_ValueError:
  assumes "initiate_authorization w a (login_name a (gen_random_name w))
             (login_hostname a (environ w (DVC_STUDIO_URL w)) (STUDIO_URL w)) = (ev, Inl (ValueError e))"
  shows "CmdStudioLogin_run w a cfg = (cfg, ev @ [UiErrorWrite e], Inr 1)"
  using assms by (simp add: CmdStudioLogin_run_def Let_def)

lemma login_run_raise:
  assumes "initiate_authorization w a (login_name a (gen_random_name w))
             (login_hostname a (environ w (DVC_STUDIO_URL w)) (STUDIO_URL w)) = (ev, Inl e)"
  shows "fst (CmdStudioLogin_run w a cfg) = cfg"
  using assms by (cases e) (simp_all add: CmdStudioLogin_run_def Let_def)

lemma login_run_expired:
  assumes "initiate_authorization w a (login_name a (gen_random_name w))
             (login_hostname a (environ w (DVC_STUDIO_URL w)) (STUDIO_URL w)) = (ev, Inr (dc, tu))"
    and "check_token_authorization w tu dc = Inr t" and "\<not> truthy t"
  shows "CmdStudioLogin_run w a cfg =
           (cfg, ev @ [CheckTokenAuthorization tu dc, UiWrite expired_message], Inr 1)"
  using assms by (simp add: CmdStudioLogin_run_def Let_def)

lemma login_run_saved:
  assumes "initiate_authorization w a (login_name a (gen_random_name w))
             (login_hostname a (environ w (DVC_STUDIO_URL w)) (STUDIO_URL w)) = (ev, Inr (dc, tu))"
    and "check_token_authorization w tu dc = Inr t" and "truthy t"
    and "save_config cfg (login_hostname a (environ w (DVC_STUDIO_URL w)) (STUDIO_URL w)) t = (cfg', Inr ())"
  shows "CmdStudioLogin_run w a cfg =
           (cfg', ev @ [CheckTokenAuthorization tu dc,
                        UiWrite (success_message (login_name a (gen_random_name w)))], Inr 0)"
  using assms by (simp add: CmdStudioLogin_run_def Let_def)

lemma save_config_raise:
  "snd (save_config cfg hostname token) = Inl e \<Longrightarrow> fst (save_config cfg hostname token) = cfg"
  by (auto simp: save_config_def config_edit_def split: sum.splits prod.splits)

lemma login_run_unwritten:
  assumes "snd (snd (CmdStudioLogin_run w a cfg)) \<noteq> Inr 0"
  shows "fst (CmdStudioLogin_run w a cfg) = cfg"
proof -
  let ?H = "login_hostname a (environ w (DVC_STUDIO_URL w)) (STUDIO_URL w)"
  obtain ev r where init: "initiate_authorization w a (login_name a (gen_random_name w)) ?H = (ev, r)"
    by (cases "initiate_authorization w a (login_name a (gen_random_name w)) ?H")
  show ?thesis
  proof (cases r)
    case (Inl e)
    with init show ?thesis by (simp add: login_run_raise)
  next
    case (Inr p)
    obtain dc tu where p: "p = (dc, tu)" by (cases p)
    show ?thesis
    proof (cases "check_token_authorization w tu dc")
      case (Inl e)
      with init Inr p show ?thesis by (simp add: CmdStudioLogin_run_def Let_def)
    next
      case tok: (Inr t)
      show ?thesis
      proof (cases "truthy t")
        case False
        with init Inr p tok show ?thesis by (simp add: login_run_expired)
      next
        case True
        obtain cfg' s where sv: "save_config cfg ?H t = (cfg', s)"
          by (cases "save_config cfg ?H t")
        show ?thesis
        proof (cases s)
          case (Inl e)
          with sv save_config_raise [of cfg ?H t e] have "cfg' = cfg" by simp
          with init Inr p tok True sv Inl show ?thesis
            by (simp add: CmdStudioLogin_run_def Let_def)
        next
          case ok: (Inr u)
          with init Inr p tok True sv assms show ?thesis
            by (simp add: CmdStudioLogin_run_def Let_def)
        qed
      qed
    qed
  qed
qed

lemma login_run_first:
  "hd (fst (snd (CmdStudioLogin_run w a cfg))) =
     StartDeviceLogin ''dvc'' (login_hostname a (environ w (DVC_STUDIO_URL w)) (STUDIO_URL w))
       (login_name a (gen_random_name w)) (login_scopes a)"
proof -
  let ?H = "login_hostname a (environ w (DVC_STUDIO_URL w)) (STUDIO_URL w)"
  let ?N = "login_name a (gen_random_name w)"
  obtain ev r where init: "initiate_authorization w a ?N ?H = (ev, r)"
    by (cases "initiate_authorization w a ?N ?H")
  have ne: "ev \<noteq> []" and h: "hd ev = StartDeviceLogin ''dvc'' ?H ?N (login_scopes a)"
    using init by (auto simp: initiate_authorization_def Let_def split: sum.splits prod.splits)
  have "\<exists>more. fst (snd (CmdStudioLogin_run w a cfg)) = ev @ more"
    using init
    by (auto simp: CmdStudioLogin_run_def Let_def split: sum.splits prod.splits pyerr.splits)
  with ne h show ?thesis by auto
qed

lemma initiate_authorization_malformed:
  assumes "start_device_login w ''dvc'' hostname name (login_scopes a) = Inr response"
    and "map_of response ''verification_uri'' = None \<or> map_of response ''user_code'' = None \<or>
         map_of response ''device_code'' = None \<or> map_of response ''token_uri'' = None"
  shows "\<exists>k. initiate_authorization w a name hostname =
           ([StartDeviceLogin ''dvc'' hostname name (login_scopes a)], Inl (KeyError k))"
  using assms
  by (auto simp: initiate_authorization_def present_def response_get_def Let_def
      split: option.splits)

lemma login_run_propagates:
  assumes "initiate_authorization w a (login_name a (gen_random_name w))
             (login_hostname a (environ w (DVC_STUDIO_URL w)) (STUDIO_URL w)) = (ev, Inl x)"
    and "\<forall>m. x \<noteq> ValueError m"
  shows "CmdStudioLogin_run w a cfg = (cfg, ev, Inl x)"
  using assms by (cases x) (simp_all add: CmdStudioLogin_run_def Let_def)

section \<open>The login command\<close>

text \<open>
  C2, as amended. Login returns exit code 0 when the session is initiated, a truthy token
  comes back from \<^verbatim>\<open>check_token_authorization\<close> and the credential is saved; the
  store is then the saved one and the last message names the token. It returns exit code 1
  when the initiation raises \<^verbatim>\<open>ValueError\<close>, whose text it prints as an error, and
  when the token that comes back is empty or absent, where its last message says that the
  device code has expired. \<^verbatim>\<open>ValueError\<close> is the only failure of the initiation that
  \<^verbatim>\<open>run\<close> catches: any other exception leaves \<^verbatim>\<open>run\<close> with no exit code, and
  so does the \<^verbatim>\<open>KeyError\<close> of a response that lacks one of the four fields.
\<close>

theorem login_exit_codes:
  "(snd (initiate_authorization w a (login_name a (gen_random_name w))
           (login_hostname a (environ w (DVC_STUDIO_URL w)) (STUDIO_URL w))) = Inr (dc, tu) \<and>
    check_token_authorization w tu dc = Inr t \<and> truthy t \<and>
    save_config cfg (login_hostname a (environ w (DVC_STUDIO_URL w)) (STUDIO_URL w)) t = (cfg', Inr ())
    \<longrightarrow>
      CmdStudioLogin_run w a cfg =
        (cfg',
         fst (initiate_authorization w a (login_name a (gen_random_name w))
                (login_hostname a (environ w (DVC_STUDIO_URL w)) (STUDIO_URL w))) @
         [CheckTokenAuthorization tu dc,
          UiWrite (PyStr (''Authentication successful. The token will be available as '' @
                          login_name a (gen_random_name w) @ '' in Studio profile.''))],
         Inr 0)) \<and>
   (snd (initiate_authorization w a (login_name a (gen_random_name w))
           (login_hostname a (environ w (DVC_STUDIO_URL w)) (STUDIO_URL w))) = Inl (ValueError e)
    \<longrightarrow>
      CmdStudioLogin_run w a cfg =
        (cfg,
         fst (initiate_authorization w a (login_name a (gen_random_name w))
                (login_hostname a (environ w (DVC_STUDIO_URL w)) (STUDIO_URL w))) @
         [UiErrorWrite e],
         Inr 1)) \<and>
   (snd (initiate_authorization w a (login_name a (gen_random_name w))
           (login_hostname a (environ w (DVC_STUDIO_URL w)) (STUDIO_URL w))) = Inr (dc, tu) \<and>
    check_token_authorization w tu dc = Inr t \<and> \<not> truthy t
    \<longrightarrow>
      CmdStudioLogin_run w a cfg =
        (cfg,
         fst (initiate_authorization w a (login_name a (gen_random_name w))
                (login_hostname a (environ w (DVC_STUDIO_URL w)) (STUDIO_URL w))) @
         [CheckTokenAuthorization tu dc,
          UiWrite (PyStr ''failed to authenticate: This 'device_code' has expired.(expired_token)'')],
         Inr 1)) \<and>
   (snd (initiate_authorization w a (login_name a (gen_random_name w))
           (login_hostname a (environ w (DVC_STUDIO_URL w)) (STUDIO_URL w))) = Inl x \<and>
    (\<forall>m. x \<noteq> ValueError m)
    \<longrightarrow>
      CmdStudioLogin_run w a cfg =
        (cfg,
         fst (initiate_authorization w a (login_name a (gen_random_name w))
                (login_hostname a (environ w (DVC_STUDIO_URL w)) (STUDIO_URL w))),
         Inl x)) \<and>
   (start_device_login w ''dvc'' (login_hostname a (environ w (DVC_STUDIO_URL w)) (STUDIO_URL w))
       (login_name a (gen_random_name w)) (login_scopes a) = Inl (ValueError e)
    \<longrightarrow>
      CmdStudioLogin_run w a cfg =
        (cfg,
         [StartDeviceLogin ''dvc'' (login_hostname a (environ w (DVC_STUDIO_URL w)) (STUDIO_URL w))
            (login_name a (gen_random_name w)) (login_scopes a),
          UiErrorWrite e],
         Inr 1)) \<and>
   (start_device_login w ''dvc'' (login_hostname a (environ w (DVC_STUDIO_URL w)) (STUDIO_URL w))
       (login_name a (gen_random_name w)) (login_scopes a) = Inr response \<and>
    (map_of response ''verification_uri'' = None \<or> map_of response ''user_code'' = None \<or>
     map_of response ''device_code'' = None \<or> map_of response ''token_uri'' = None)
    \<longrightarrow>
      (\<exists>k. CmdStudioLogin_run w a cfg =
        (cfg,
         [StartDeviceLogin ''dvc'' (login_hostname a (environ w (DVC_STUDIO_URL w)) (STUDIO_URL w))
            (login_name a (gen_random_name w)) (login_scopes a)],
         Inl (KeyError k))))"
proof -
  let ?H = "login_hostname a (environ w (DVC_STUDIO_URL w)) (STUDIO_URL w)"
  let ?N = "login_name a (gen_random_name w)"
  obtain ev r where init: "initiate_authorization w a ?N ?H = (ev, r)"
    by (cases "initiate_authorization w a ?N ?H")
  have saved: "CmdStudioLogin_run w a cfg =
      (cfg', ev @ [CheckTokenAuthorization tu dc,
         UiWrite (PyStr (''Authentication successful. The token will be available as '' @
                          ?N @ '' in Studio profile.''))], Inr 0)"
    if "r = Inr (dc, tu)" "check_token_authorization w tu dc = Inr t" "truthy t"
      "save_config cfg ?H t = (cfg', Inr ())"
    using login_run_saved [of w a ev dc tu t cfg cfg'] init that
    by (simp add: success_message_def)
  have caught: "CmdStudioLogin_run w a cfg = (cfg, ev @ [UiErrorWrite e], Inr 1)"
    if "r = Inl (ValueError e)"
    using login_run_ValueError [of w a ev e cfg] init that by simp
  have expired: "CmdStudioLogin_run w a cfg =
      (cfg, ev @ [CheckTokenAuthorization tu dc,
         UiWrite (PyStr ''failed to authenticate: This 'device_code' has expired.(expired_token)'')],
       Inr 1)"
    if "r = Inr (dc, tu)" "check_token_authorization w tu dc = Inr t" "\<not> truthy t"
    using login_run_expired [of w a ev dc tu t cfg] init that
    by (simp add: expired_message_def)
  have uncaught: "CmdStudioLogin_run w a cfg = (cfg, ev, Inl x)"
    if "r = Inl x" "\<forall>m. x \<noteq> ValueError m"
    using login_run_propagates [of w a ev x cfg] init that by simp
  have refused: "CmdStudioLogin_run w a cfg =
      (cfg, [StartDeviceLogin ''dvc'' ?H ?N (login_scopes a), UiErrorWrite e], Inr 1)"
    if "start_device_login w ''dvc'' ?H ?N (login_scopes a) = Inl (ValueError e)"
    using login_run_ValueError [OF initiate_authorization_raise [OF that], of cfg] by simp
  have malformed: "\<exists>k. CmdStudioLogin_run w a cfg =
      (cfg, [StartDeviceLogin ''dvc'' ?H ?N (login_scopes a)], Inl (KeyError k))"
    if "start_device_login w ''dvc'' ?H ?N (login_scopes a) = Inr response"
      "map_of response ''verification_uri'' = None \<or> map_of response ''user_code'' = None \<or>
       map_of response ''device_code'' = None \<or> map_of response ''token_uri'' = None"
  proof -
    from initiate_authorization_malformed [OF that] obtain k where
      "initiate_authorization w a ?N ?H =
         ([StartDeviceLogin ''dvc'' ?H ?N (login_scopes a)], Inl (KeyError k))" by blast
    from login_run_propagates [OF this, of cfg] show ?thesis by auto
  qed
  from saved caught expired uncaught refused malformed show ?thesis
    unfolding init fst_conv snd_conv by blast
qed

text \<open>
  C2, as stated, fails for a failed initiation that is not a \<^verbatim>\<open>ValueError\<close>: a
  response without \<^verbatim>\<open>token_uri\<close> and a service that cannot be reached both end
  \<^verbatim>\<open>run\<close> with the exception, not with exit code 1.
\<close>

theorem login_uncaught_initiation_failure_counterexample:
  "CmdStudioLogin_run
     (fixed_world None
        (Inr [(''verification_uri'', ''https://studio.example/auth''), (''user_code'', ''ABCD''),
              (''device_code'', ''dev1'')])
        True (Inr (PyStr ''abc123'')))
     \<lparr>args_name = None, args_hostname = None, args_scopes = None, args_use_device_code = False\<rparr>
     empty_config =
   (empty_config,
    [StartDeviceLogin ''dvc'' ''https://studio.example'' ''brisk-fern''
       [''live'', ''dvc_experiment'', ''view_url'', ''dql'', ''download_model'']],
    Inl (KeyError ''token_uri'')) \<and>
   CmdStudioLogin_run
     (fixed_world None (Inl (OtherError ''connection refused'')) True (Inr (PyStr ''abc123'')))
     \<lparr>args_name = None, args_hostname = None, args_scopes = None, args_use_device_code = False\<rparr>
     empty_config =
   (empty_config,
    [StartDeviceLogin ''dvc'' ''https://studio.example'' ''brisk-fern''
       [''live'', ''dvc_experiment'', ''view_url'', ''dql'', ''download_model'']],
    Inl (OtherError ''connection refused''))"
  by (simp add: CmdStudioLogin_run_def initiate_authorization_def present_def response_get_def
      login_scopes_def split_def DEFAULT_SCOPES_def login_name_def login_hostname_def
      fixed_world_def Let_def)

theorem login_exit_codes_witness:
  "fst (CmdStudioLogin_run
         (fixed_world None (Inr sample_response) True (Inr (PyStr ''abc123'')))
         \<lparr>args_name = None, args_hostname = None, args_scopes = None, args_use_device_code = False\<rparr>
         (empty_config(''global'' := PyDict [(''studio'', PyDict [])]))) =
     empty_config(''global'' := PyDict [(''studio'',
       PyDict [(''token'', PyStr ''abc123''), (''url'', PyStr ''https://studio.example'')])]) \<and>
   snd (snd (CmdStudioLogin_run
         (fixed_world None (Inr sample_response) True (Inr (PyStr ''abc123'')))
         \<lparr>args_name = None, args_hostname = None, args_scopes = None, args_use_device_code = False\<rparr>
         (empty_config(''global'' := PyDict [(''studio'', PyDict [])])))) = Inr 0 \<and>
   snd (snd (CmdStudioLogin_run
         (fixed_world None (Inl (ValueError ''unknown scope'')) True (Inr (PyStr ''abc123'')))
         \<lparr>args_name = None, args_hostname = None, args_scopes = None, args_use_device_code = False\<rparr>
         empty_config)) = Inr 1 \<and>
   snd (snd (CmdStudioLogin_run
         (fixed_world None (Inr sample_response) True (Inr PyNone))
         \<lparr>args_name = None, args_hostname = None, args_scopes = None, args_use_device_code = False\<rparr>
         empty_config)) = Inr 1 \<and>
   snd (snd (CmdStudioLogin_run
         (fixed_world None (Inl (OtherError ''connection refused'')) True (Inr (PyStr ''abc123'')))
         \<lparr>args_name = None, args_hostname = None, args_scopes = None, args_use_device_code = False\<rparr>
         empty_config)) = Inl (OtherError ''connection refused'') \<and>
   (\<exists>k. snd (snd (CmdStudioLogin_run
         (fixed_world None (Inr [(''verification_uri'', ''https://studio.example/auth'')]) True
            (Inr (PyStr ''abc123'')))
         \<lparr>args_name = None, args_hostname = None, args_scopes = None, args_use_device_code = False\<rparr>
         empty_config)) = Inl (KeyError k))"
proof -
  let ?a = "\<lparr>args_name = None, args_hostname = None, args_scopes = None, args_use_device_code = False\<rparr>"
  note evals = fixed_world_def sample_response_def login_hostname_def login_name_def
    initiate_authorization_def present_def response_get_def Let_def
    save_config_def config_edit_def save_config_block_def setitem2_def
  have saved: "fst (CmdStudioLogin_run
         (fixed_world None (Inr sample_response) True (Inr (PyStr ''abc123''))) ?a
         (empty_config(''global'' := PyDict [(''studio'', PyDict [])]))) =
     empty_config(''global'' := PyDict [(''studio'',
       PyDict [(''token'', PyStr ''abc123''), (''url'', PyStr ''https://studio.example'')])]) \<and>
     snd (snd (CmdStudioLogin_run
         (fixed_world None (Inr sample_response) True (Inr (PyStr ''abc123''))) ?a
         (empty_config(''global'' := PyDict [(''studio'', PyDict [])])))) = Inr 0"
    using login_exit_codes [where w = "fixed_world None (Inr sample_response) True (Inr (PyStr ''abc123''))"
        and a = ?a
        and cfg = "empty_config(''global'' := PyDict [(''studio'', PyDict [])])"
        and dc = "''dev1''" and tu = "''https://studio.example/token''"
        and t = "PyStr ''abc123''"
        and cfg' = "empty_config(''global'' := PyDict [(''studio'',
            PyDict [(''token'', PyStr ''abc123''), (''url'', PyStr ''https://studio.example'')])])"]
    by (simp add: evals)
  have caught: "snd (snd (CmdStudioLogin_run
         (fixed_world None (Inl (ValueError ''unknown scope'')) True (Inr (PyStr ''abc123''))) ?a
         empty_config)) = Inr 1"
    using login_exit_codes [where w = "fixed_world None (Inl (ValueError ''unknown scope'')) True (Inr (PyStr ''abc123''))"
        and a = ?a and cfg = empty_config and e = "''unknown scope''"]
    by (simp add: evals)
  have expired: "snd (snd (CmdStudioLogin_run
         (fixed_world None (Inr sample_response) True (Inr PyNone)) ?a empty_config)) = Inr 1"
    using login_exit_codes [where w = "fixed_world None (Inr sample_response) True (Inr PyNone)"
        and a = ?a and cfg = empty_config
        and dc = "''dev1''" and tu = "''https://studio.example/token''" and t = PyNone]
    by (simp add: evals)
  have uncaught: "snd (snd (CmdStudioLogin_run
         (fixed_world None (Inl (OtherError ''connection refused'')) True (Inr (PyStr ''abc123''))) ?a
         empty_config)) = Inl (OtherError ''connection refused'')"
    using login_exit_codes [where w = "fixed_world None (Inl (OtherError ''connection refused'')) True (Inr (PyStr ''abc123''))"
        and a = ?a and cfg = empty_config and x = "OtherError ''connection refused''"]
    by (simp add: evals)
  have malformed: "\<exists>k. snd (snd (CmdStudioLogin_run
         (fixed_world None (Inr [(''verification_uri'', ''https://studio.example/auth'')]) True
            (Inr (PyStr ''abc123''))) ?a empty_config)) = Inl (KeyError k)"
  proof -
    have "\<exists>k. CmdStudioLogin_run
         (fixed_world None (Inr [(''verification_uri'', ''https://studio.example/auth'')]) True
            (Inr (PyStr ''abc123''))) ?a empty_config =
       (empty_config,
        [StartDeviceLogin ''dvc''
           (login_hostname ?a
              (environ (fixed_world None (Inr [(''verification_uri'', ''https://studio.example/auth'')])
                  True (Inr (PyStr ''abc123'')))
                 (DVC_STUDIO_URL (fixed_world None
                    (Inr [(''verification_uri'', ''https://studio.example/auth'')]) True
                    (Inr (PyStr ''abc123'')))))
              (STUDIO_URL (fixed_world None
                 (Inr [(''verification_uri'', ''https://studio.example/auth'')]) True
                 (Inr (PyStr ''abc123'')))))
           (login_name ?a (gen_random_name (fixed_world None
              (Inr [(''verification_uri'', ''https://studio.example/auth'')]) True
              (Inr (PyStr ''abc123'')))))
           (login_scopes ?a)],
        Inl (KeyError k))"
      using login_exit_codes [where w = "fixed_world None (Inr [(''verification_uri'', ''https://studio.example/auth'')]) True
            (Inr (PyStr ''abc123''))"
        and a = ?a and cfg = empty_config
        and response = "[(''verification_uri'', ''https://studio.example/auth'')]"
        and dc = "''dev1''" and tu = "''https://studio.example/token''" and t = PyNone
        and cfg' = empty_config and e = "''unknown scope''" and x = TypeError]
      by (simp add: fixed_world_def)
    then show ?thesis by auto
  qed
  from saved caught expired uncaught malformed show ?thesis by blast
qed

text \<open>
  C5. Login leaves the store exactly as it was on every run that does not end with exit
  code 0: in particular when the initiation raises, and when the token that comes back is
  empty or absent. Nothing is written before the completion has succeeded.
\<close>

theorem login_failure_writes_nothing:
  "(snd (snd (CmdStudioLogin_run w a cfg)) \<noteq> Inr 0 \<longrightarrow> fst (CmdStudioLogin_run w a cfg) = cfg) \<and>
   (start_device_login w ''dvc'' (login_hostname a (environ w (DVC_STUDIO_URL w)) (STUDIO_URL w))
       (login_name a (gen_random_name w)) (login_scopes a) = Inl e
    \<longrightarrow> fst (CmdStudioLogin_run w a cfg) = cfg) \<and>
   (start_device_login w ''dvc'' (login_hostname a (environ w (DVC_STUDIO_URL w)) (STUDIO_URL w))
       (login_name a (gen_random_name w)) (login_scopes a) = Inr response \<and>
    map_of response ''verification_uri'' = Some vu \<and> map_of response ''user_code'' = Some uc \<and>
    map_of response ''device_code'' = Some dc \<and> map_of response ''token_uri'' = Some tu \<and>
    check_token_authorization w tu dc = Inr t \<and> \<not> truthy t
    \<longrightarrow> fst (CmdStudioLogin_run w a cfg) = cfg)"
proof (intro conjI impI)
  assume "snd (snd (CmdStudioLogin_run w a cfg)) \<noteq> Inr 0"
  then show "fst (CmdStudioLogin_run w a cfg) = cfg"
    by (rule login_run_unwritten)
next
  assume "start_device_login w ''dvc'' (login_hostname a (environ w (DVC_STUDIO_URL w)) (STUDIO_URL w))
       (login_name a (gen_random_name w)) (login_scopes a) = Inl e"
  from login_run_raise [OF initiate_authorization_raise [OF this]]
  show "fst (CmdStudioLogin_run w a cfg) = cfg" .
next
  assume h: "start_device_login w ''dvc'' (login_hostname a (environ w (DVC_STUDIO_URL w)) (STUDIO_URL w))
       (login_name a (gen_random_name w)) (login_scopes a) = Inr response \<and>
    map_of response ''verification_uri'' = Some vu \<and> map_of response ''user_code'' = Some uc \<and>
    map_of response ''device_code'' = Some dc \<and> map_of response ''token_uri'' = Some tu \<and>
    check_token_authorization w tu dc = Inr t \<and> \<not> truthy t"
  then have st: "start_device_login w ''dvc''
        (login_hostname a (environ w (DVC_STUDIO_URL w)) (STUDIO_URL w))
        (login_name a (gen_random_name w)) (login_scopes a) = Inr response"
    and k: "map_of response ''verification_uri'' = Some vu" "map_of response ''user_code'' = Some uc"
      "map_of response ''device_code'' = Some dc" "map_of response ''token_uri'' = Some tu"
    and tok: "check_token_authorization w tu dc = Inr t" and falsy: "\<not> truthy t"
    by simp_all
  obtain ev r where init: "initiate_authorization w a (login_name a (gen_random_name w))
      (login_hostname a (environ w (DVC_STUDIO_URL w)) (STUDIO_URL w)) = (ev, r)"
    by (cases "initiate_authorization w a (login_name a (gen_random_name w))
      (login_hostname a (environ w (DVC_STUDIO_URL w)) (STUDIO_URL w))")
  from initiate_authorization_result [OF st k] init
  consider e where "r = Inl e" | "r = Inr (dc, tu)" by auto
  then show "fst (CmdStudioLogin_run w a cfg) = cfg"
  proof cases
    case 1
    with init show ?thesis by (simp add: login_run_raise)
  next
    case 2
    with init login_run_expired [of w a ev dc tu t cfg] tok falsy show ?thesis by simp
  qed
qed

theorem login_failure_writes_nothing_witness:
  "fst (CmdStudioLogin_run
         (fixed_world None (Inl (ValueError ''unreachable'')) True (Inr (PyStr ''abc123'')))
         \<lparr>args_name = None, args_hostname = None, args_scopes = None, args_use_device_code = False\<rparr>
         (empty_config(''global'' := PyDict [(''studio'', PyDict [])]))) =
     empty_config(''global'' := PyDict [(''studio'', PyDict [])]) \<and>
   fst (CmdStudioLogin_run
         (fixed_world None (Inr sample_response) True (Inr (PyStr '''')))
         \<lparr>args_name = None, args_hostname = None, args_scopes = None, args_use_device_code = False\<rparr>
         (empty_config(''global'' := PyDict [(''studio'', PyDict [])]))) =
     empty_config(''global'' := PyDict [(''studio'', PyDict [])])"
  using
    login_failure_writes_nothing [where w = "fixed_world None (Inl (ValueError ''unreachable'')) True (Inr (PyStr ''abc123''))"
        and a = "\<lparr>args_name = None, args_hostname = None, args_scopes = None, args_use_device_code = False\<rparr>"
        and cfg = "empty_config(''global'' := PyDict [(''studio'', PyDict [])])"
        and e = "ValueError ''unreachable''"]
    login_failure_writes_nothing [where w = "fixed_world None (Inr sample_response) True (Inr (PyStr ''''))"
        and a = "\<lparr>args_name = None, args_hostname = None, args_scopes = None, args_use_device_code = False\<rparr>"
        and cfg = "empty_config(''global'' := PyDict [(''studio'', PyDict [])])"
        and response = sample_response
        and vu = "''https://studio.example/auth''" and uc = "''ABCD''"
        and dc = "''dev1''" and tu = "''https://studio.example/token''"
        and t = "PyStr ''''"]
  by (simp add: fixed_world_def sample_response_def)




text \<open>
  C7. A non-empty \<^verbatim>\<open>--scopes\<close> string reaches \<^verbatim>\<open>start_device_login\<close> as the
  list of its pieces between commas, in order, whatever the pieces are: nothing is checked
  against the available scopes, and only the service can refuse them. The string
  \<^verbatim>\<open>live,view_url\<close> gives the two pieces \<^verbatim>\<open>live\<close> and \<^verbatim>\<open>view_url\<close>.
  Without \<^verbatim>\<open>--scopes\<close> the five default scopes are sent.
\<close>

theorem scopes_forwarded_unvalidated:
  "(args_scopes a = Some s \<and> s \<noteq> [] \<longrightarrow>
      hd (fst (initiate_authorization w a name hostname)) =
        StartDeviceLogin ''dvc'' hostname name (split s CHR '','') \<and>
      (start_device_login w ''dvc'' hostname name (split s CHR '','') = Inl e \<longrightarrow>
         snd (initiate_authorization w a name hostname) = Inl e)) \<and>
   split ''live,view_url'' CHR '','' = [''live'', ''view_url''] \<and>
   (args_scopes a = None \<longrightarrow>
      hd (fst (initiate_authorization w a name hostname)) =
        StartDeviceLogin ''dvc'' hostname name
          [''live'', ''dvc_experiment'', ''view_url'', ''dql'', ''download_model''] \<and>
      (start_device_login w ''dvc'' hostname name
          [''live'', ''dvc_experiment'', ''view_url'', ''dql'', ''download_model''] = Inl e \<longrightarrow>
         snd (initiate_authorization w a name hostname) = Inl e))"
proof (intro conjI impI)
  show "split ''live,view_url'' CHR '','' = [''live'', ''view_url'']"
    by (simp add: split_def)
next
  assume "args_scopes a = Some s \<and> s \<noteq> []"
  then have sc: "login_scopes a = split s CHR '',''"
    by (simp add: login_scopes_given)
  from sc show "hd (fst (initiate_authorization w a name hostname)) =
        StartDeviceLogin ''dvc'' hostname name (split s CHR '','')"
    by (simp add: initiate_authorization_first)
  assume "start_device_login w ''dvc'' hostname name (split s CHR '','') = Inl e"
  with sc show "snd (initiate_authorization w a name hostname) = Inl e"
    by (simp add: initiate_authorization_raise)
next
  assume "args_scopes a = None"
  then have sc: "login_scopes a = [''live'', ''dvc_experiment'', ''view_url'', ''dql'', ''download_model'']"
    by (simp add: login_scopes_omitted AVAILABLE_SCOPES_def)
  from sc show "hd (fst (initiate_authorization w a name hostname)) =
        StartDeviceLogin ''dvc'' hostname name
          [''live'', ''dvc_experiment'', ''view_url'', ''dql'', ''download_model'']"
    by (simp add: initiate_authorization_first)
  assume "start_device_login w ''dvc'' hostname name
          [''live'', ''dvc_experiment'', ''view_url'', ''dql'', ''download_model''] = Inl e"
  with sc show "snd (initiate_authorization w a name hostname) = Inl e"
    by (simp add: initiate_authorization_raise)
qed

theorem scopes_forwarded_unvalidated_witness:
  "hd (fst (initiate_authorization (fixed_world None (Inl (ValueError ''refused'')) True (Inr PyNone))
     \<lparr>args_name = None, args_hostname = None, args_scopes = Some ''bogus,live'', args_use_device_code = False\<rparr>
     ''brisk-fern'' ''https://studio.example'')) =
     StartDeviceLogin ''dvc'' ''https://studio.example'' ''brisk-fern'' [''bogus'', ''live''] \<and>
   snd (initiate_authorization (fixed_world None (Inl (ValueError ''refused'')) True (Inr PyNone))
     \<lparr>args_name = None, args_hostname = None, args_scopes = Some ''bogus,live'', args_use_device_code = False\<rparr>
     ''brisk-fern'' ''https://studio.example'') = Inl (ValueError ''refused'') \<and>
   hd (fst (initiate_authorization (fixed_world None (Inl (ValueError ''refused'')) True (Inr PyNone))
     \<lparr>args_name = None, args_hostname = None, args_scopes = None, args_use_device_code = False\<rparr>
     ''brisk-fern'' ''https://studio.example'')) =
     StartDeviceLogin ''dvc'' ''https://studio.example'' ''brisk-fern''
       [''live'', ''dvc_experiment'', ''view_url'', ''dql'', ''download_model'']"
  using
    scopes_forwarded_unvalidated [where w = "fixed_world None (Inl (ValueError ''refused'')) True (Inr PyNone)"
        and a = "\<lparr>args_name = None, args_hostname = None, args_scopes = Some ''bogus,live'', args_use_device_code = False\<rparr>"
        and name = "''brisk-fern''" and hostname = "''https://studio.example''"
        and s = "''bogus,live''" and e = "ValueError ''refused''"]
    scopes_forwarded_unvalidated [where w = "fixed_world None (Inl (ValueError ''refused'')) True (Inr PyNone)"
        and a = "\<lparr>args_name = None, args_hostname = None, args_scopes = None, args_use_device_code = False\<rparr>"
        and name = "''brisk-fern''" and hostname = "''https://studio.example''"
        and e = "ValueError ''refused''"]
  by (simp add: fixed_world_def split_def)

text \<open>
  C8, as amended. Login asks the service with the resolved hostname and name. The hostname
  is the \<^verbatim>\<open>--hostname\<close> argument when it is given and not empty; else the value of
  the environment variable when it is set and not empty; else the built-in default. The
  name is the \<^verbatim>\<open>--name\<close> argument when it is given and not empty, else the
  generated name.
\<close>

theorem login_name_hostname_resolution:
  "hd (fst (snd (CmdStudioLogin_run w a cfg))) =
     StartDeviceLogin ''dvc'' (login_hostname a (environ w (DVC_STUDIO_URL w)) (STUDIO_URL w))
       (login_name a (gen_random_name w)) (login_scopes a) \<and>
   (args_hostname a = Some h \<and> h \<noteq> [] \<longrightarrow>
      login_hostname a (environ w (DVC_STUDIO_URL w)) (STUDIO_URL w) = h) \<and>
   ((args_hostname a = None \<or> args_hostname a = Some []) \<and>
    environ w (DVC_STUDIO_URL w) = Some u \<and> u \<noteq> [] \<longrightarrow>
      login_hostname a (environ w (DVC_STUDIO_URL w)) (STUDIO_URL w) = u) \<and>
   ((args_hostname a = None \<or> args_hostname a = Some []) \<and>
    (environ w (DVC_STUDIO_URL w) = None \<or> environ w (DVC_STUDIO_URL w) = Some []) \<longrightarrow>
      login_hostname a (environ w (DVC_STUDIO_URL w)) (STUDIO_URL w) = STUDIO_URL w) \<and>
   (args_name a = Some n \<and> n \<noteq> [] \<longrightarrow> login_name a (gen_random_name w) = n) \<and>
   (args_name a = None \<or> args_name a = Some [] \<longrightarrow>
      login_name a (gen_random_name w) = gen_random_name w)"
  by (auto simp: login_run_first login_hostname_def login_name_def)

text \<open>
  C8, as stated, fails for an argument that is supplied but empty: with
  \<^verbatim>\<open>--hostname ""\<close> and the environment variable set, login asks the host of the
  environment variable.
\<close>

theorem login_empty_hostname_argument_counterexample:
  "CmdStudioLogin_run
     (fixed_world (Some ''https://env.example'') (Inl (ValueError ''unreachable'')) False (Inr PyNone))
     \<lparr>args_name = None, args_hostname = Some '''', args_scopes = Some ''live'',
      args_use_device_code = False\<rparr>
     empty_config =
   (empty_config,
    [StartDeviceLogin ''dvc'' ''https://env.example'' ''brisk-fern'' [''live''],
     UiErrorWrite ''unreachable''],
    Inr 1)"
  by (simp add: CmdStudioLogin_run_def initiate_authorization_def login_scopes_def split_def
      login_name_def login_hostname_def fixed_world_def Let_def)

theorem login_name_hostname_resolution_witness:
  "login_hostname
     \<lparr>args_name = Some ''laptop'', args_hostname = Some ''https://given.example'', args_scopes = None,
      args_use_device_code = False\<rparr>
     (environ (fixed_world (Some ''https://env.example'') (Inl (ValueError ''x'')) True (Inr PyNone))
        (DVC_STUDIO_URL (fixed_world (Some ''https://env.example'') (Inl (ValueError ''x'')) True (Inr PyNone))))
     (STUDIO_URL (fixed_world (Some ''https://env.example'') (Inl (ValueError ''x'')) True (Inr PyNone)))
     = ''https://given.example'' \<and>
   login_name
     \<lparr>args_name = Some ''laptop'', args_hostname = Some ''https://given.example'', args_scopes = None,
      args_use_device_code = False\<rparr>
     (gen_random_name (fixed_world (Some ''https://env.example'') (Inl (ValueError ''x'')) True (Inr PyNone)))
     = ''laptop'' \<and>
   login_hostname
     \<lparr>args_name = None, args_hostname = None, args_scopes = None, args_use_device_code = False\<rparr>
     (environ (fixed_world (Some ''https://env.example'') (Inl (ValueError ''x'')) True (Inr PyNone))
        (DVC_STUDIO_URL (fixed_world (Some ''https://env.example'') (Inl (ValueError ''x'')) True (Inr PyNone))))
     (STUDIO_URL (fixed_world (Some ''https://env.example'') (Inl (ValueError ''x'')) True (Inr PyNone)))
     = ''https://env.example'' \<and>
   login_name
     \<lparr>args_name = None, args_hostname = None, args_scopes = None, args_use_device_code = False\<rparr>
     (gen_random_name (fixed_world (Some ''https://env.example'') (Inl (ValueError ''x'')) True (Inr PyNone)))
     = ''brisk-fern'' \<and>
   login_hostname
     \<lparr>args_name = None, args_hostname = None, args_scopes = None, args_use_device_code = False\<rparr>
     (environ (fixed_world None (Inl (ValueError ''x'')) True (Inr PyNone))
        (DVC_STUDIO_URL (fixed_world None (Inl (ValueError ''x'')) True (Inr PyNone))))
     (STUDIO_URL (fixed_world None (Inl (ValueError ''x'')) True (Inr PyNone)))
     = ''https://studio.example''"
  using
    login_name_hostname_resolution [where w = "fixed_world (Some ''https://env.example'') (Inl (ValueError ''x'')) True (Inr PyNone)"
        and a = "\<lparr>args_name = Some ''laptop'', args_hostname = Some ''https://given.example'',
                  args_scopes = None, args_use_device_code = False\<rparr>"
        and h = "''https://given.example''" and n = "''laptop''"]
    login_name_hostname_resolution [where w = "fixed_world (Some ''https://env.example'') (Inl (ValueError ''x'')) True (Inr PyNone)"
        and a = "\<lparr>args_name = None, args_hostname = None, args_scopes = None, args_use_device_code = False\<rparr>"
        and u = "''https://env.example''"]
    login_name_hostname_resolution [where w = "fixed_world None (Inl (ValueError ''x'')) True (Inr PyNone)"
        and a = "\<lparr>args_name = None, args_hostname = None, args_scopes = None, args_use_device_code = False\<rparr>"]
  by (simp add: fixed_world_def)

end
